theory Spec2Isabelle
  imports Complex_Main "HOL-Library.Sublist"
begin

section \<open>The SHARP conversion script, convert\_to\_coreml.py\<close>

text \<open>
  The script loads a PyTorch checkpoint, wraps the network so that its raw output is cut
  into five named tensors, converts the traced wrapper to the coremltools format, and compares both on one
  input. The libraries it calls (torch, coremltools, the file system) are not part of the
  script: what they return, and whether they raise, is read from an environment record.
  Exceptions are values, and the calls that load, bind, trace, convert, quantize, save and
  run a model are written to a list of events, in the order of the calls. Print statements
  that only narrate progress are left out; the warning of the loader, the report of the
  validation and the banners of \<open>main\<close> are events. Tensor entries are real numbers:
  rounding and NaN are outside the model.
\<close>

subsection \<open>Exceptions\<close>

datatype exc_class =
  RuntimeError | NotImplementedError | TypeError | ValueError | KeyError
  | OSError | EOFError | UnpicklingError | KeyboardInterrupt

datatype pyexc = PyExc (exc_cls: exc_class) (exc_msg: string)

text \<open>\<open>except RuntimeError\<close> also catches the subclasses of RuntimeError.\<close>

fun isinstance_RuntimeError :: "pyexc \<Rightarrow> bool" where
  "isinstance_RuntimeError (PyExc c m) = (c = RuntimeError \<or> c = NotImplementedError)"

text \<open>\<open>except Exception\<close> catches everything but the direct children of BaseException.\<close>

fun isinstance_Exception :: "pyexc \<Rightarrow> bool" where
  "isinstance_Exception (PyExc c m) = (c \<noteq> KeyboardInterrupt)"

subsection \<open>Tensors\<close>

text \<open>
  An activation tensor of rank three, (batch, primitives, channels), is a list of lists of
  rows; the wrapper indexes its output with three indices, so rank three is what the
  script assumes of the network. The image tensor only matters through its shape.
\<close>

type_synonym tensor3 = "real list list list"

datatype image = Image (img_shape: "int list") (img_data: "real list")

text \<open>A weight tensor of a checkpoint or of a module: its shape and its flat data.\<close>

datatype ptensor = PTensor (pt_shape: "nat list") (pt_data: "real list")

text \<open>What \<open>torch.load\<close> can return: a dict, a tensor, or something else.\<close>

datatype pyobj =
  PDict "(string \<times> pyobj) list"
  | PTens ptensor
  | PNone
  | PStr string
  | PInt int

record model =
  params :: "(string \<times> ptensor) list"
  training :: bool

definition eval_mode :: "model \<Rightarrow> model" where
  "eval_mode m = m\<lparr>training := False\<rparr>"

subsection \<open>Events and the environment\<close>

datatype event =
  Print string
  | TorchLoad string
  | LoadStateDict bool
  | JitTrace
  | CtConvert
  | QuantizeWeights nat
  | Save string
  | WrapperForward
  | Predict
  | Makedirs string
  | Report string real real bool

text \<open>\<open>ct.ComputeUnit\<close>: ALL, CPU\_AND\_NE, CPU\_ONLY.\<close>

datatype compute_unit = CU_ALL | CU_CPU_AND_NE | CU_CPU_ONLY

datatype dtype = Float32

record tensor_type =
  tt_name :: string
  tt_shape :: "int list option"
  tt_dtype :: dtype

text \<open>The graph that \<open>torch.jit.trace\<close> records: the traced module and the example input.\<close>

datatype traced = Traced model image

record mlmodel =
  ml_program :: traced
  ml_inputs :: "tensor_type list"
  ml_outputs :: "tensor_type list"
  ml_compute_units :: compute_unit
  ml_deployment_target :: string
  ml_format :: string
  ml_author :: string
  ml_license :: string
  ml_short_description :: string
  ml_version :: string
  ml_input_description :: "(string \<times> string) list"
  ml_output_description :: "(string \<times> string) list"

text \<open>
  The environment of one run. \<open>init_weights\<close> gives the random values a new module's
  parameters start with. \<open>load_state_dict\<close> copies into the module in place, also
  when it raises afterwards, so it returns the module next to the exception.
  \<open>torch_rand k\<close> is the k-th draw of the random generator in this run.
  \<open>np_broadcast_sub\<close> is numpy's subtraction of two arrays of different shapes.
\<close>

record env =
  path_exists :: "string \<Rightarrow> bool"
  makedirs :: "string \<Rightarrow> pyexc option"
  torch_load :: "string \<Rightarrow> pyexc + pyobj"
  init_weights :: "string \<Rightarrow> real list"
  load_state_dict :: "model \<Rightarrow> pyobj \<Rightarrow> bool \<Rightarrow> pyexc option \<times> model"
  torch_rand :: "nat \<Rightarrow> int list \<Rightarrow> pyexc + image"
  net_forward :: "model \<Rightarrow> image \<Rightarrow> pyexc + tensor3"
  jit_trace :: "model \<Rightarrow> image \<Rightarrow> pyexc + traced"
  ct_convert_error :: "traced \<Rightarrow> tensor_type list \<Rightarrow> tensor_type list \<Rightarrow> pyexc option"
  quantize_weights :: "mlmodel \<Rightarrow> nat \<Rightarrow> pyexc + mlmodel"
  mlmodel_save :: "mlmodel \<Rightarrow> string \<Rightarrow> pyexc option"
  mlmodel_predict :: "mlmodel \<Rightarrow> image \<Rightarrow> pyexc + (string \<times> tensor3) list"
  np_broadcast_sub :: "tensor3 \<Rightarrow> tensor3 \<Rightarrow> pyexc + tensor3"

subsection \<open>SharpModelWrapper.forward\<close>

text \<open>Python's \<open>xs[a:b]\<close> for \<open>0 \<le> a \<le> b\<close>: the slice is clipped to the list.\<close>

definition py_slice :: "nat \<Rightarrow> nat \<Rightarrow> 'a list \<Rightarrow> 'a list" where
  "py_slice a b xs = take (b - a) (drop a xs)"

text \<open>\<open>output[:, :, a:b]\<close>\<close>

definition slice_last :: "nat \<Rightarrow> nat \<Rightarrow> tensor3 \<Rightarrow> tensor3" where
  "slice_last a b t = map (map (py_slice a b)) t"

definition forward ::
  "env \<Rightarrow> model \<Rightarrow> image \<Rightarrow> pyexc + (tensor3 \<times> tensor3 \<times> tensor3 \<times> tensor3 \<times> tensor3)" where
  "forward E m img =
     (case net_forward E m img of
        Inl e \<Rightarrow> Inl e
      | Inr output \<Rightarrow>
          (let positions = slice_last 0 3 output;
               colors = slice_last 3 6 output;
               opacities = slice_last 6 7 output;
               scales = slice_last 7 10 output;
               rotations = slice_last 10 14 output
           in Inr (positions, colors, opacities, scales, rotations)))"

text \<open>
  The shape of a rank-three tensor, and concatenation along the last axis
  (\<open>torch.cat(ts, dim=-1)\<close>), in which the round trip of the decomposition is stated.
\<close>

definition has_shape :: "tensor3 \<Rightarrow> nat \<Rightarrow> nat \<Rightarrow> nat \<Rightarrow> bool" where
  "has_shape t b n c =
     (length t = b \<and> (\<forall>m \<in> set t. length m = n \<and> (\<forall>r \<in> set m. length r = c)))"

definition cat_last2 :: "tensor3 \<Rightarrow> tensor3 \<Rightarrow> tensor3" where
  "cat_last2 s t = map2 (map2 (@)) s t"

definition cat_last5 :: "tensor3 \<times> tensor3 \<times> tensor3 \<times> tensor3 \<times> tensor3 \<Rightarrow> tensor3" where
  "cat_last5 q = (case q of (p, c, oo, s, r) \<Rightarrow>
     cat_last2 p (cat_last2 c (cat_last2 oo (cat_last2 s r))))"

subsection \<open>load\_pytorch\_model\<close>

text \<open>Lines 103 to 111: where the weights are in the checkpoint.\<close>

fun extract_state_dict :: "pyobj \<Rightarrow> pyobj" where
  "extract_state_dict (PDict kvs) =
     (case map_of kvs ''model'' of
        Some v \<Rightarrow> v
      | None \<Rightarrow>
          (case map_of kvs ''state_dict'' of
             Some v \<Rightarrow> v
           | None \<Rightarrow> PDict kvs))"
| "extract_state_dict checkpoint = checkpoint"

text \<open>
  Lines 115 to 122: the placeholder \<open>nn.Sequential\<close>. Its parameters are those of the
  convolution at index 0, \<open>Conv2d(3, 64, 3)\<close>, and of the linear layer at index 4,
  \<open>Linear(64, 1000 * 14)\<close>; a new module is in training mode.
\<close>

definition sequential_model :: "(string \<Rightarrow> real list) \<Rightarrow> model" where
  "sequential_model init =
     \<lparr>params = [(''0.weight'', PTensor [64, 3, 3, 3] (init ''0.weight'')),
                (''0.bias'', PTensor [64] (init ''0.bias'')),
                (''4.weight'', PTensor [14000, 64] (init ''4.weight'')),
                (''4.bias'', PTensor [14000] (init ''4.bias''))],
      training = True\<rparr>"

definition warning_lines :: "pyexc \<Rightarrow> event list" where
  "warning_lines e =
     [Print (''Warning: Could not load state dict directly: '' @ exc_msg e),
      Print ''Attempting to load with strict=False...'']"

definition load_pytorch_model :: "env \<Rightarrow> string \<Rightarrow> event list \<times> (pyexc + model)" where
  "load_pytorch_model E model_path =
     (case torch_load E model_path of
        Inl e \<Rightarrow> ([TorchLoad model_path], Inl e)
      | Inr checkpoint \<Rightarrow>
          (let state_dict = extract_state_dict checkpoint;
               model0 = sequential_model (init_weights E)
           in case load_state_dict E model0 state_dict True of
                (None, model1) \<Rightarrow>
                  ([TorchLoad model_path, LoadStateDict True], Inr (eval_mode model1))
              | (Some e, model1) \<Rightarrow>
                  (if isinstance_RuntimeError e then
                     (case load_state_dict E model1 state_dict False of
                        (None, model2) \<Rightarrow>
                          ([TorchLoad model_path, LoadStateDict True] @ warning_lines e
                           @ [LoadStateDict False],
                           Inr (eval_mode model2))
                      | (Some e2, model2) \<Rightarrow>
                          ([TorchLoad model_path, LoadStateDict True] @ warning_lines e
                           @ [LoadStateDict False],
                           Inl e2))
                   else ([TorchLoad model_path, LoadStateDict True], Inl e))))"

text \<open>
  PyTorch's \<open>Module.load_state_dict\<close>, for a module whose state is its parameters: a
  state dict that is no mapping raises TypeError; every parameter whose key is in the state
  dict is copied when the entry is a tensor of the parameter's shape, and is an error
  message otherwise; under \<open>strict\<close> a missing or unexpected key is an error message as
  well; any error message raises RuntimeError, after the copying.
\<close>

fun copy_params ::
  "(string \<times> pyobj) list \<Rightarrow> (string \<times> ptensor) list \<Rightarrow> (string \<times> ptensor) list \<times> string list" where
  "copy_params sd [] = ([], [])"
| "copy_params sd ((k, p) # ps) =
     (case copy_params sd ps of (ps', errs) \<Rightarrow>
        (case map_of sd k of
           None \<Rightarrow> ((k, p) # ps', errs)
         | Some (PTens t) \<Rightarrow>
             (if pt_shape t = pt_shape p then ((k, t) # ps', errs)
              else ((k, p) # ps', (''size mismatch for '' @ k) # errs))
         | Some other \<Rightarrow> ((k, p) # ps', (''expected torch.Tensor for '' @ k) # errs)))"

definition missing_keys :: "(string \<times> pyobj) list \<Rightarrow> model \<Rightarrow> string list" where
  "missing_keys sd m = filter (\<lambda>k. map_of sd k = None) (map fst (params m))"

definition unexpected_keys :: "(string \<times> pyobj) list \<Rightarrow> model \<Rightarrow> string list" where
  "unexpected_keys sd m = filter (\<lambda>k. map_of (params m) k = None) (map fst sd)"

fun torch_load_state_dict :: "model \<Rightarrow> pyobj \<Rightarrow> bool \<Rightarrow> pyexc option \<times> model" where
  "torch_load_state_dict m (PDict sd) strict =
     (case copy_params sd (params m) of (ps', errs) \<Rightarrow>
        (let errs' = (if strict \<and> missing_keys sd m \<noteq> [] then [''Missing key(s) in state_dict''] else [])
                     @ (if strict \<and> unexpected_keys sd m \<noteq> [] then [''Unexpected key(s) in state_dict''] else [])
                     @ errs
         in (if errs' \<noteq> []
             then Some (PyExc RuntimeError (''Error(s) in loading state_dict: '' @ concat errs'))
             else None,
             m\<lparr>params := ps'\<rparr>)))"
| "torch_load_state_dict m other strict =
     (Some (PyExc TypeError ''Expected state_dict to be dict-like''), m)"

subsection \<open>convert\_to\_coreml\<close>

text \<open>Decimal text of an integer, as an f-string prints it.\<close>

fun show_nat :: "nat \<Rightarrow> string" where
  "show_nat n =
     (if n < 10 then [char_of (48 + n)]
      else show_nat (n div 10) @ [char_of (48 + n mod 10)])"

declare show_nat.simps [simp del]

definition show_int :: "int \<Rightarrow> string" where
  "show_int i = (if i < 0 then CHR ''-'' # show_nat (nat (- i)) else show_nat (nat i))"

definition create_example_input :: "env \<Rightarrow> nat \<Rightarrow> int \<Rightarrow> int \<Rightarrow> pyexc + image" where
  "create_example_input E k height width = torch_rand E k [1, 3, height, width]"

text \<open>
  \<open>ct.convert\<close>: whether it raises is the environment's; the model it returns carries the
  ports and options it was called with, and no metadata yet.
\<close>

definition ct_convert ::
  "env \<Rightarrow> traced \<Rightarrow> tensor_type list \<Rightarrow> tensor_type list \<Rightarrow> compute_unit \<Rightarrow> string \<Rightarrow> string
     \<Rightarrow> pyexc + mlmodel" where
  "ct_convert E traced_model inputs outputs compute_units target convert_to =
     (case ct_convert_error E traced_model inputs outputs of
        Some e \<Rightarrow> Inl e
      | None \<Rightarrow>
          Inr \<lparr>ml_program = traced_model, ml_inputs = inputs, ml_outputs = outputs,
               ml_compute_units = compute_units, ml_deployment_target = target,
               ml_format = convert_to, ml_author = [], ml_license = [],
               ml_short_description = [], ml_version = [],
               ml_input_description = [], ml_output_description = []\<rparr>)"

definition add_metadata :: "int \<times> int \<Rightarrow> mlmodel \<Rightarrow> mlmodel" where
  "add_metadata input_shape mlmodel =
     mlmodel\<lparr>ml_author := ''oflike-metal'',
             ml_license := ''MIT'',
             ml_short_description := ''SHARP: Single-image 3D Gaussian Splatting'',
             ml_version := ''1.0.0'',
             ml_input_description :=
               [(''image'', ''Input RGB image normalized to [0, 1] range. Shape: (1, 3, ''
                   @ show_int (fst input_shape) @ '', '' @ show_int (snd input_shape) @ '')'')],
             ml_output_description :=
               [(''positions'', ''3D positions of Gaussians in world space (N, 3)''),
                (''colors'', ''RGB colors of Gaussians [0, 1] (N, 3)''),
                (''opacities'', ''Opacity values [0, 1] (N, 1)''),
                (''scales'', ''Scale factors for Gaussian covariance (N, 3)''),
                (''rotations'', ''Rotation quaternions (w, x, y, z) (N, 4)'')]\<rparr>"

definition image_input :: "int \<times> int \<Rightarrow> tensor_type" where
  "image_input input_shape =
     \<lparr>tt_name = ''image'', tt_shape = Some [1, 3, fst input_shape, snd input_shape],
      tt_dtype = Float32\<rparr>"

definition output_types :: "tensor_type list" where
  "output_types =
     [\<lparr>tt_name = ''positions'', tt_shape = None, tt_dtype = Float32\<rparr>,
      \<lparr>tt_name = ''colors'', tt_shape = None, tt_dtype = Float32\<rparr>,
      \<lparr>tt_name = ''opacities'', tt_shape = None, tt_dtype = Float32\<rparr>,
      \<lparr>tt_name = ''scales'', tt_shape = None, tt_dtype = Float32\<rparr>,
      \<lparr>tt_name = ''rotations'', tt_shape = None, tt_dtype = Float32\<rparr>]"

text \<open>Lines 244 to 253: the optional quantization, then the save.\<close>

definition quantize_and_save ::
  "env \<Rightarrow> mlmodel \<Rightarrow> string \<Rightarrow> bool \<Rightarrow> event list \<times> (pyexc + mlmodel)" where
  "quantize_and_save E mlmodel output_path quantize =
     (case (if quantize then quantize_weights E mlmodel 8 else Inr mlmodel) of
        Inl e \<Rightarrow> ([QuantizeWeights 8], Inl e)
      | Inr mlmodel' \<Rightarrow>
          (let evq = (if quantize then [QuantizeWeights 8] else [])
           in case mlmodel_save E mlmodel' output_path of
                Some e \<Rightarrow> (evq @ [Save output_path], Inl e)
              | None \<Rightarrow> (evq @ [Save output_path], Inr mlmodel')))"

definition convert_to_coreml ::
  "env \<Rightarrow> nat \<Rightarrow> model \<Rightarrow> string \<Rightarrow> int \<times> int \<Rightarrow> compute_unit \<Rightarrow> bool
     \<Rightarrow> event list \<times> (pyexc + mlmodel)" where
  "convert_to_coreml E k pytorch_model output_path input_shape compute_units quantize =
     (let wrapped_model = eval_mode pytorch_model
      in case create_example_input E k (fst input_shape) (snd input_shape) of
           Inl e \<Rightarrow> ([], Inl e)
         | Inr example_input \<Rightarrow>
             (case jit_trace E wrapped_model example_input of
                Inl e \<Rightarrow> ([JitTrace], Inl e)
              | Inr traced_model \<Rightarrow>
                  (case ct_convert E traced_model [image_input input_shape] output_types
                          compute_units ''macOS13'' ''mlprogram'' of
                     Inl e \<Rightarrow> ([JitTrace, CtConvert], Inl e)
                   | Inr mlmodel \<Rightarrow>
                       (case quantize_and_save E (add_metadata input_shape mlmodel)
                               output_path quantize of
                          (evs, r) \<Rightarrow> ([JitTrace, CtConvert] @ evs, r)))))"

subsection \<open>validate\_coreml\_model\<close>

text \<open>
  numpy on arrays of rank three. Two arrays of one shape are subtracted element by
  element; \<open>np.max\<close> of an array without elements raises ValueError. \<open>np.mean\<close> is only
  reached after \<open>np.max\<close> has returned, so on an array that has elements.
\<close>

definition same_shape :: "tensor3 \<Rightarrow> tensor3 \<Rightarrow> bool" where
  "same_shape a b = (map (map length) a = map (map length) b)"

definition np_sub :: "env \<Rightarrow> tensor3 \<Rightarrow> tensor3 \<Rightarrow> pyexc + tensor3" where
  "np_sub E a b =
     (if same_shape a b then Inr (map2 (map2 (map2 (-))) a b) else np_broadcast_sub E a b)"

definition np_abs :: "tensor3 \<Rightarrow> tensor3" where
  "np_abs t = map (map (map abs)) t"

definition flat :: "tensor3 \<Rightarrow> real list" where
  "flat t = concat (concat t)"

definition np_max :: "tensor3 \<Rightarrow> pyexc + real" where
  "np_max t =
     (case flat t of
        [] \<Rightarrow> Inl (PyExc ValueError ''zero-size array to reduction operation maximum which has no identity'')
      | x # xs \<Rightarrow> Inr (fold max xs x))"

definition np_mean :: "tensor3 \<Rightarrow> real" where
  "np_mean t = sum_list (flat t) / real (length (flat t))"

text \<open>The loop of lines 315 to 329, with \<open>all_passed\<close> as its accumulator.\<close>

fun compare_outputs ::
  "env \<Rightarrow> (string \<times> tensor3) list \<Rightarrow> real \<Rightarrow> (string \<times> tensor3) list \<Rightarrow> bool
     \<Rightarrow> event list \<times> (pyexc + bool)" where
  "compare_outputs E coreml_output tolerance [] all_passed = ([], Inr all_passed)"
| "compare_outputs E coreml_output tolerance ((name, pt_np) # outputs) all_passed =
     (case map_of coreml_output name of
        None \<Rightarrow> ([], Inl (PyExc KeyError name))
      | Some coreml_np \<Rightarrow>
          (case np_sub E pt_np coreml_np of
             Inl e \<Rightarrow> ([], Inl e)
           | Inr diff \<Rightarrow>
               (case np_max (np_abs diff) of
                  Inl e \<Rightarrow> ([], Inl e)
                | Inr max_diff \<Rightarrow>
                    (let mean_diff = np_mean (np_abs diff);
                         passed = (max_diff < tolerance)
                     in case compare_outputs E coreml_output tolerance outputs
                               (if \<not> passed then False else all_passed) of
                          (evs, r) \<Rightarrow> (Report name max_diff mean_diff passed # evs, r)))))"

definition verdict :: "bool \<Rightarrow> event" where
  "verdict all_passed =
     (if all_passed then Print ''Validation passed!''
      else Print ''Validation failed! Max difference exceeds tolerance'')"

definition validate_coreml_model ::
  "env \<Rightarrow> nat \<Rightarrow> mlmodel \<Rightarrow> model \<Rightarrow> int \<times> int \<Rightarrow> real \<Rightarrow> event list \<times> (pyexc + bool)" where
  "validate_coreml_model E k mlmodel pytorch_model input_shape tolerance =
     (case create_example_input E k (fst input_shape) (snd input_shape) of
        Inl e \<Rightarrow> ([], Inl e)
      | Inr test_input \<Rightarrow>
          (case forward E (eval_mode pytorch_model) test_input of
             Inl e \<Rightarrow> ([WrapperForward], Inl e)
           | Inr (pt_positions, pt_colors, pt_opacities, pt_scales, pt_rotations) \<Rightarrow>
               (case mlmodel_predict E mlmodel test_input of
                  Inl e \<Rightarrow> ([WrapperForward, Predict], Inl e)
                | Inr coreml_output \<Rightarrow>
                    (case compare_outputs E coreml_output tolerance
                            [(''positions'', pt_positions), (''colors'', pt_colors),
                             (''opacities'', pt_opacities), (''scales'', pt_scales),
                             (''rotations'', pt_rotations)] True of
                       (evs, Inl e) \<Rightarrow> ([WrapperForward, Predict] @ evs, Inl e)
                     | (evs, Inr all_passed) \<Rightarrow>
                         ([WrapperForward, Predict] @ evs @ [verdict all_passed],
                          Inr all_passed)))))"

subsection \<open>main\<close>

record args =
  arg_input :: string
  arg_output :: string
  arg_width :: int
  arg_height :: int
  arg_compute_units :: compute_unit
  arg_quantize :: bool
  arg_skip_validation :: bool
  arg_tolerance :: real

text \<open>\<open>os.path.dirname\<close> (posixpath).\<close>

definition dirname :: "string \<Rightarrow> string" where
  "dirname p =
     (let head = rev (dropWhile (\<lambda>c. c \<noteq> CHR ''/'') (rev p))
      in if head \<noteq> [] \<and> \<not> list_all (\<lambda>c. c = CHR ''/'') head
         then rev (dropWhile (\<lambda>c. c = CHR ''/'') (rev head))
         else head)"

text \<open>
  How the process ends: \<open>main\<close> returns, \<open>sys.exit\<close> is called, or an exception leaves
  \<open>main\<close>. The interpreter's exit status follows from it.
\<close>

datatype outcome = Returned | SysExit int | Uncaught pyexc

fun exit_status :: "outcome \<Rightarrow> int" where
  "exit_status Returned = 0"
| "exit_status (SysExit n) = n"
| "exit_status (Uncaught e) = (if exc_cls e = KeyboardInterrupt then 130 else 1)"

text \<open>The handler \<open>except Exception\<close> of lines 467 to 474.\<close>

definition handle_exception :: "event list \<Rightarrow> pyexc \<Rightarrow> event list \<times> outcome" where
  "handle_exception evs e =
     (if isinstance_Exception e
      then (evs @ [Print ''ERROR: Conversion failed!'', Print (exc_msg e)], SysExit 1)
      else (evs, Uncaught e))"

definition main :: "env \<Rightarrow> args \<Rightarrow> event list \<times> outcome" where
  "main E a =
     (if \<not> path_exists E (arg_input a)
      then ([Print (''Error: Input file not found: '' @ arg_input a)], SysExit 1)
      else
        (let output_dir = dirname (arg_output a);
             ev0 = (if output_dir \<noteq> [] then [Makedirs output_dir] else [])
         in case (if output_dir \<noteq> [] then makedirs E output_dir else None) of
              Some e \<Rightarrow> (ev0, Uncaught e)
            | None \<Rightarrow>
                (case load_pytorch_model E (arg_input a) of
                   (ev1, Inl e) \<Rightarrow> handle_exception (ev0 @ ev1) e
                 | (ev1, Inr pytorch_model) \<Rightarrow>
                     (case convert_to_coreml E 0 pytorch_model (arg_output a)
                             (arg_height a, arg_width a) (arg_compute_units a)
                             (arg_quantize a) of
                        (ev2, Inl e) \<Rightarrow> handle_exception (ev0 @ ev1 @ ev2) e
                      | (ev2, Inr mlmodel) \<Rightarrow>
                          (if \<not> arg_skip_validation a then
                             (case validate_coreml_model E 1 mlmodel pytorch_model
                                     (arg_height a, arg_width a) (arg_tolerance a) of
                                (ev3, Inl e) \<Rightarrow> handle_exception (ev0 @ ev1 @ ev2 @ ev3) e
                              | (ev3, Inr ok) \<Rightarrow>
                                  (ev0 @ ev1 @ ev2 @ ev3
                                     @ [Print ''SUCCESS: Model conversion complete!''],
                                   Returned))
                           else
                             (ev0 @ ev1 @ ev2 @ [Print ''SUCCESS: Model conversion complete!''],
                              Returned))))))"

subsection \<open>A small environment\<close>

text \<open>
  A checkpoint that holds weights for the module under \<open>model\<close>, a network that returns
  two primitives, and libraries that never raise. The theorems below are instantiated on it
  and on variants of it. \<open>filled v\<close> gives each parameter as many entries \<open>v\<close> as
  its shape has.
\<close>

definition filled :: "real \<Rightarrow> string \<Rightarrow> real list" where
  "filled v k =
     replicate (if k = ''0.weight'' then 64 * 3 * 3 * 3 else if k = ''0.bias'' then 64
                else if k = ''4.weight'' then 14000 * 64 else 14000) v"

definition demo_output :: tensor3 where
  "demo_output = [ [ [1, 2, 3, 4, 5, 6, 7, 8, 9, 10, 11, 12, 13, 14],
                   [0, 0, 0, 1, 1, 1, 1, 2, 2, 2, 1, 0, 0, 0] ] ]"

definition demo_model :: model where
  "demo_model = sequential_model (filled 0)"

definition demo_weights :: pyobj where
  "demo_weights =
     PDict [(''0.weight'', PTens (PTensor [64, 3, 3, 3] (filled 1 ''0.weight''))),
            (''0.bias'', PTens (PTensor [64] (filled 1 ''0.bias''))),
            (''4.weight'', PTens (PTensor [14000, 64] (filled 1 ''4.weight''))),
            (''4.bias'', PTens (PTensor [14000] (filled 1 ''4.bias'')))]"

definition demo_checkpoint :: pyobj where
  "demo_checkpoint = PDict [(''epoch'', PInt 3), (''model'', demo_weights)]"

definition demo_image :: image where
  "demo_image = Image [1, 3, 4, 4] []"

definition demo_env :: env where
  "demo_env =
     \<lparr>path_exists = (\<lambda>p. p = ''sharp.pth''),
      makedirs = (\<lambda>d. None),
      torch_load = (\<lambda>p. Inr demo_checkpoint),
      init_weights = filled 0,
      load_state_dict = torch_load_state_dict,
      torch_rand = (\<lambda>k shp. Inr (Image shp [real k])),
      net_forward = (\<lambda>m img. Inr demo_output),
      jit_trace = (\<lambda>m img. Inr (Traced m img)),
      ct_convert_error = (\<lambda>tr ins outs. None),
      quantize_weights = (\<lambda>ml n. Inr ml),
      mlmodel_save = (\<lambda>ml p. None),
      mlmodel_predict = (\<lambda>ml img. Inr []),
      np_broadcast_sub =
        (\<lambda>a b. Inl (PyExc ValueError ''operands could not be broadcast together''))\<rparr>"


definition corrupt_checkpoint_env :: env where
  "corrupt_checkpoint_env =
     demo_env\<lparr>torch_load := (\<lambda>p. Inl (PyExc UnpicklingError ''invalid load key''))\<rparr>"

definition partial_checkpoint :: pyobj where
  "partial_checkpoint =
     PDict [(''0.weight'', PTens (PTensor [64, 3, 3, 3] (filled 1 ''0.weight''))),
            (''extra'', PNone)]"

definition partial_env :: env where
  "partial_env = demo_env\<lparr>torch_load := (\<lambda>p. Inr partial_checkpoint)\<rparr>"

definition mismatch_env :: env where
  "mismatch_env =
     demo_env\<lparr>torch_load := (\<lambda>p. Inr (PDict [(''0.weight'', PTens (PTensor [3] [5, 6, 7]))]))\<rparr>"

definition tensor_env :: env where
  "tensor_env = demo_env\<lparr>torch_load := (\<lambda>p. Inr (PTens (PTensor [3] [5, 6, 7])))\<rparr>"

text \<open>The state dict of a module whose one parameter is called \<open>model\<close>.\<close>

definition named_weights :: pyobj where
  "named_weights = PDict [(''model'', PTens (PTensor [1] [7]))]"

definition top_level_env :: env where
  "top_level_env = demo_env\<lparr>torch_load := (\<lambda>p. Inr named_weights)\<rparr>"

definition nested_env :: env where
  "nested_env = demo_env\<lparr>torch_load := (\<lambda>p. Inr (PDict [(''state_dict'', named_weights)]))\<rparr>"

definition trace_fails_env :: env where
  "trace_fails_env =
     demo_env\<lparr>jit_trace := (\<lambda>m img. Inl (PyExc RuntimeError ''unsupported operation''))\<rparr>"

definition demo_mlmodel :: mlmodel where
  "demo_mlmodel =
     \<lparr>ml_program = Traced demo_model demo_image, ml_inputs = [image_input (4, 4)],
      ml_outputs = output_types, ml_compute_units = CU_ALL, ml_deployment_target = ''macOS13'',
      ml_format = ''mlprogram'', ml_author = ''oflike-metal'', ml_license = ''MIT'',
      ml_short_description = [], ml_version = ''1.0.0'', ml_input_description = [],
      ml_output_description = []\<rparr>"

text \<open>A prediction that agrees with the network but for one color, off by one half.\<close>

definition demo_prediction :: "(string \<times> tensor3) list" where
  "demo_prediction =
     [(''positions'', [ [ [1, 2, 3], [0, 0, 0] ] ]),
      (''colors'', [ [ [4, 5, 13 / 2], [1, 1, 1] ] ]),
      (''opacities'', [ [ [7], [1] ] ]),
      (''scales'', [ [ [8, 9, 10], [2, 2, 2] ] ]),
      (''rotations'', [ [ [11, 12, 13, 14], [1, 0, 0, 0] ] ])]"

definition validation_env :: env where
  "validation_env = demo_env\<lparr>mlmodel_predict := (\<lambda>ml img. Inr demo_prediction)\<rparr>"

text \<open>A network without primitives: its output has the shape (1, 0, 14).\<close>

definition no_primitives_env :: env where
  "no_primitives_env =
     demo_env\<lparr>net_forward := (\<lambda>m img. Inr [ [] ]),
              mlmodel_predict := (\<lambda>ml img. Inr [(''positions'', [ [] ]), (''colors'', [ [] ]),
                 (''opacities'', [ [] ]), (''scales'', [ [] ]), (''rotations'', [ [] ])])\<rparr>"




definition demo_args :: args where
  "demo_args =
     \<lparr>arg_input = ''sharp.pth'', arg_output = ''out/sharp.mlpackage'', arg_width = 4,
      arg_height = 4, arg_compute_units = CU_ALL, arg_quantize = False,
      arg_skip_validation = False, arg_tolerance = 1 / 1000\<rparr>"

section \<open>Properties\<close>

subsection \<open>The decomposition of the raw output\<close>

lemma map2_same: "map2 f (map g xs) (map h xs) = map (\<lambda>x. f (g x) (h x)) xs"
  by (induction xs) auto

lemma py_slice_append:
  "a \<le> b \<Longrightarrow> b \<le> c \<Longrightarrow> py_slice a b xs @ py_slice b c xs = py_slice a c xs"
proof -
  assume ab: "a \<le> b" and bc: "b \<le> c"
  have "take (c - a) (drop a xs) = take ((b - a) + (c - b)) (drop a xs)"
    using ab bc by simp
  also have "\<dots> = take (b - a) (drop a xs) @ take (c - b) (drop (b - a) (drop a xs))"
    by (rule take_add)
  also have "drop (b - a) (drop a xs) = drop b xs"
    using ab by simp
  finally show ?thesis by (simp add: py_slice_def)
qed

lemma cat_last2_slices:
  "a \<le> b \<Longrightarrow> b \<le> c \<Longrightarrow> cat_last2 (slice_last a b t) (slice_last b c t) = slice_last a c t"
  by (simp add: cat_last2_def slice_last_def map2_same py_slice_append)

lemma slice_last_all: "has_shape t b n c \<Longrightarrow> slice_last 0 c t = t"
  by (auto simp: has_shape_def slice_last_def py_slice_def intro!: map_idI)

lemma slice_last_shape:
  "has_shape t b n c \<Longrightarrow> hi \<le> c \<Longrightarrow> has_shape (slice_last lo hi t) b n (hi - lo)"
  by (auto simp: has_shape_def slice_last_def py_slice_def)

lemma slice_last_nth:
  "has_shape t b n c \<Longrightarrow> i < b \<Longrightarrow> j < n \<Longrightarrow> k < hi - lo \<Longrightarrow> hi \<le> c \<Longrightarrow>
   slice_last lo hi t ! i ! j ! k = t ! i ! j ! (lo + k)"
proof -
  assume shp: "has_shape t b n c" and i: "i < b" and j: "j < n" and k: "k < hi - lo"
    and hi: "hi \<le> c"
  have ti: "t ! i \<in> set t" and li: "i < length t"
    using shp i by (auto simp: has_shape_def)
  then have lj: "j < length (t ! i)" and tj: "t ! i ! j \<in> set (t ! i)"
    using shp j by (auto simp: has_shape_def)
  have "length (t ! i ! j) = c"
    using shp ti tj by (auto simp: has_shape_def)
  then have "lo + k < length (t ! i ! j)"
    using k hi by simp
  then show ?thesis
    using li lj k by (simp add: slice_last_def py_slice_def)
qed

text \<open>
  C1. When the network returns a tensor of shape (1, N, 14), the wrapper returns five
  tensors, in the order position, color, opacity, scale, rotation, of the shapes (1,N,3),
  (1,N,3), (1,N,1), (1,N,3), (1,N,4); their entries are the entries of the raw tensor at the
  channels 0..2, 3..5, 6, 7..9 and 10..13; and their concatenation along the last axis is
  the raw tensor.
\<close>

theorem forward_decomposition:
  assumes net: "net_forward E m img = Inr t" and shp: "has_shape t 1 N 14"
  shows "\<exists>p c oo s r. forward E m img = Inr (p, c, oo, s, r)
           \<and> has_shape p 1 N 3 \<and> has_shape c 1 N 3 \<and> has_shape oo 1 N 1
           \<and> has_shape s 1 N 3 \<and> has_shape r 1 N 4
           \<and> (\<forall>i < N. (\<forall>j < 3. p ! 0 ! i ! j = t ! 0 ! i ! j)
                     \<and> (\<forall>j < 3. c ! 0 ! i ! j = t ! 0 ! i ! (3 + j))
                     \<and> oo ! 0 ! i ! 0 = t ! 0 ! i ! 6
                     \<and> (\<forall>j < 3. s ! 0 ! i ! j = t ! 0 ! i ! (7 + j))
                     \<and> (\<forall>j < 4. r ! 0 ! i ! j = t ! 0 ! i ! (10 + j)))
           \<and> cat_last5 (p, c, oo, s, r) = t"
proof -
  let ?p = "slice_last 0 3 t" and ?c = "slice_last 3 6 t" and ?o = "slice_last 6 7 t"
  let ?s = "slice_last 7 10 t" and ?r = "slice_last 10 14 t"
  have fw: "forward E m img = Inr (?p, ?c, ?o, ?s, ?r)"
    using net by (simp add: forward_def)
  have shapes: "has_shape ?p 1 N 3" "has_shape ?c 1 N 3" "has_shape ?o 1 N 1"
    "has_shape ?s 1 N 3" "has_shape ?r 1 N 4"
    using slice_last_shape [OF shp, of 3 0] slice_last_shape [OF shp, of 6 3]
      slice_last_shape [OF shp, of 7 6] slice_last_shape [OF shp, of 10 7]
      slice_last_shape [OF shp, of 14 10] by simp_all
  have elems: "\<forall>i < N. (\<forall>j < 3. ?p ! 0 ! i ! j = t ! 0 ! i ! j)
                     \<and> (\<forall>j < 3. ?c ! 0 ! i ! j = t ! 0 ! i ! (3 + j))
                     \<and> ?o ! 0 ! i ! 0 = t ! 0 ! i ! 6
                     \<and> (\<forall>j < 3. ?s ! 0 ! i ! j = t ! 0 ! i ! (7 + j))
                     \<and> (\<forall>j < 4. ?r ! 0 ! i ! j = t ! 0 ! i ! (10 + j))"
    using slice_last_nth [OF shp, of 0 _ _ 3 0] slice_last_nth [OF shp, of 0 _ _ 6 3]
      slice_last_nth [OF shp, of 0 _ 0 7 6] slice_last_nth [OF shp, of 0 _ _ 10 7]
      slice_last_nth [OF shp, of 0 _ _ 14 10] by simp
  have "cat_last5 (?p, ?c, ?o, ?s, ?r) = slice_last 0 14 t"
    by (simp add: cat_last5_def cat_last2_slices)
  then have cat: "cat_last5 (?p, ?c, ?o, ?s, ?r) = t"
    using slice_last_all [OF shp] by simp
  show ?thesis using fw shapes elems cat by blast
qed

theorem forward_decomposition_witness:
  "net_forward demo_env demo_model demo_image = Inr demo_output
   \<and> has_shape demo_output 1 2 14
   \<and> (\<exists>p c oo s r. forward demo_env demo_model demo_image = Inr (p, c, oo, s, r)
         \<and> has_shape p 1 2 3 \<and> has_shape r 1 2 4
         \<and> cat_last5 (p, c, oo, s, r) = demo_output)"
proof -
  have h1: "net_forward demo_env demo_model demo_image = Inr demo_output"
    by (simp add: demo_env_def)
  have h2: "has_shape demo_output 1 2 14"
    by (simp add: has_shape_def demo_output_def)
  from forward_decomposition [OF h1 h2] show ?thesis
    using h1 h2 by blast
qed

subsection \<open>The loader\<close>

lemma extract_model_key: "map_of kvs ''model'' = Some v \<Longrightarrow> extract_state_dict (PDict kvs) = v"
  by simp

lemma extract_state_dict_key:
  "map_of kvs ''model'' = None \<Longrightarrow> map_of kvs ''state_dict'' = Some v \<Longrightarrow>
   extract_state_dict (PDict kvs) = v"
  by simp

lemma extract_top_level:
  "\<forall>kvs. w = PDict kvs \<longrightarrow> map_of kvs ''model'' = None \<and> map_of kvs ''state_dict'' = None \<Longrightarrow>
   extract_state_dict w = w"
  by (cases w) simp_all

lemma load_depends_on_extract:
  "extract_state_dict c = extract_state_dict c' \<Longrightarrow>
   load_pytorch_model (E\<lparr>torch_load := \<lambda>p. Inr c\<rparr>) path
   = load_pytorch_model (E\<lparr>torch_load := \<lambda>p. Inr c'\<rparr>) path"
  by (simp add: load_pytorch_model_def cong: prod.case_cong option.case_cong if_cong)

text \<open>
  C5, as amended. A mapping with the key \<open>model\<close> yields the value under that key, whatever
  else it holds; a mapping without \<open>model\<close> and with \<open>state_dict\<close> yields the value under
  \<open>state_dict\<close>; a weights collection at top level is taken as it is when it is no mapping,
  or a mapping with neither key. For such a collection the three containers give the same
  run of the loader: the same events and the same model or exception.
\<close>

theorem nesting_equivalence:
  assumes m: "map_of kvs1 ''model'' = Some w"
    and s: "map_of kvs2 ''model'' = None" "map_of kvs2 ''state_dict'' = Some w"
    and t: "\<forall>kvs. w = PDict kvs \<longrightarrow> map_of kvs ''model'' = None \<and> map_of kvs ''state_dict'' = None"
  shows "extract_state_dict (PDict kvs1) = w \<and> extract_state_dict (PDict kvs2) = w
         \<and> extract_state_dict w = w
         \<and> load_pytorch_model (E\<lparr>torch_load := \<lambda>p. Inr (PDict kvs1)\<rparr>) path
             = load_pytorch_model (E\<lparr>torch_load := \<lambda>p. Inr w\<rparr>) path
         \<and> load_pytorch_model (E\<lparr>torch_load := \<lambda>p. Inr (PDict kvs2)\<rparr>) path
             = load_pytorch_model (E\<lparr>torch_load := \<lambda>p. Inr w\<rparr>) path"
proof -
  have e1: "extract_state_dict (PDict kvs1) = w" using m by (rule extract_model_key)
  have e2: "extract_state_dict (PDict kvs2) = w" using s by (rule extract_state_dict_key)
  have e3: "extract_state_dict w = w" using t by (rule extract_top_level)
  show ?thesis
    using e1 e2 e3 load_depends_on_extract [of "PDict kvs1" w E path]
      load_depends_on_extract [of "PDict kvs2" w E path] by simp
qed

theorem nesting_equivalence_witness:
  "map_of [(''epoch'', PInt 3), (''state_dict'', PNone), (''model'', demo_weights)] ''model''
     = Some demo_weights
   \<and> map_of [(''state_dict'', demo_weights)] ''state_dict'' = Some demo_weights
   \<and> extract_state_dict demo_weights = demo_weights
   \<and> load_pytorch_model
        (demo_env\<lparr>torch_load := \<lambda>p. Inr (PDict [(''state_dict'', demo_weights)])\<rparr>) ''sharp.pth''
      = load_pytorch_model (demo_env\<lparr>torch_load := \<lambda>p. Inr demo_weights\<rparr>) ''sharp.pth''"
proof -
  have h1: "map_of [(''epoch'', PInt 3), (''state_dict'', PNone), (''model'', demo_weights)] ''model''
              = Some demo_weights" by simp
  have h2: "map_of [(''state_dict'', demo_weights)] ''model'' = None" by simp
  have h3: "map_of [(''state_dict'', demo_weights)] ''state_dict'' = Some demo_weights" by simp
  have h4: "\<forall>kvs. demo_weights = PDict kvs
              \<longrightarrow> map_of kvs ''model'' = None \<and> map_of kvs ''state_dict'' = None"
    by (auto simp: demo_weights_def)
  from nesting_equivalence [OF h1 h2 h3 h4, of demo_env "''sharp.pth''"] show ?thesis
    using h1 h3 by simp
qed

text \<open>
  C5 as stated fails for a weights collection that itself has a key \<open>model\<close>: nested under
  \<open>state_dict\<close> it goes to the binding, which here falls back to the relaxed one and
  returns a model; at top level the loader takes the tensor under \<open>model\<close> for the weights
  collection and the binding raises TypeError.
\<close>

theorem nesting_counterexample:
  "snd (load_pytorch_model nested_env ''sharp.pth'') = Inr (eval_mode demo_model)
   \<and> snd (load_pytorch_model top_level_env ''sharp.pth'')
     = Inl (PyExc TypeError ''Expected state_dict to be dict-like'')"
  by (simp add: load_pytorch_model_def nested_env_def top_level_env_def demo_env_def
      demo_model_def sequential_model_def named_weights_def missing_keys_def
      unexpected_keys_def eval_mode_def)

text \<open>
  C6. When strict binding raises a RuntimeError and relaxed binding then succeeds, the
  loader does not raise: it prints the two warning lines, calls the relaxed binding once,
  and returns the module that relaxed binding left, in evaluation mode.
\<close>

theorem relaxed_fallback:
  assumes "torch_load E path = Inr ckpt"
    and "load_state_dict E (sequential_model (init_weights E)) (extract_state_dict ckpt) True = (Some e, m1)"
    and "isinstance_RuntimeError e"
    and "load_state_dict E m1 (extract_state_dict ckpt) False = (None, m2)"
  shows "load_pytorch_model E path
           = ([TorchLoad path, LoadStateDict True] @ warning_lines e @ [LoadStateDict False],
              Inr (eval_mode m2))
         \<and> training (eval_mode m2) = False \<and> params (eval_mode m2) = params m2
         \<and> length (filter (\<lambda>ev. ev = LoadStateDict False) (fst (load_pytorch_model E path))) = 1"
  using assms by (simp add: load_pytorch_model_def eval_mode_def warning_lines_def)

theorem relaxed_fallback_witness:
  "load_pytorch_model partial_env ''sharp.pth''
     = ([TorchLoad ''sharp.pth'', LoadStateDict True]
          @ warning_lines (PyExc RuntimeError
              ''Error(s) in loading state_dict: Missing key(s) in state_dictUnexpected key(s) in state_dict'')
          @ [LoadStateDict False],
        Inr (eval_mode \<lparr>params = [(''0.weight'', PTensor [64, 3, 3, 3] (filled 1 ''0.weight'')),
                                  (''0.bias'', PTensor [64] (filled 0 ''0.bias'')),
                                  (''4.weight'', PTensor [14000, 64] (filled 0 ''4.weight'')),
                                  (''4.bias'', PTensor [14000] (filled 0 ''4.bias''))],
                        training = True\<rparr>))"
proof -
  let ?m = "\<lparr>params = [(''0.weight'', PTensor [64, 3, 3, 3] (filled 1 ''0.weight'')),
                       (''0.bias'', PTensor [64] (filled 0 ''0.bias'')),
                       (''4.weight'', PTensor [14000, 64] (filled 0 ''4.weight'')),
                       (''4.bias'', PTensor [14000] (filled 0 ''4.bias''))],
             training = True\<rparr>"
  let ?e = "PyExc RuntimeError
     ''Error(s) in loading state_dict: Missing key(s) in state_dictUnexpected key(s) in state_dict''"
  have h1: "torch_load partial_env ''sharp.pth'' = Inr partial_checkpoint"
    by (simp add: partial_env_def)
  have h2: "load_state_dict partial_env (sequential_model (init_weights partial_env))
              (extract_state_dict partial_checkpoint) True = (Some ?e, ?m)"
    by (simp add: partial_env_def demo_env_def partial_checkpoint_def sequential_model_def
        missing_keys_def unexpected_keys_def)
  have h3: "isinstance_RuntimeError ?e" by simp
  have h4: "load_state_dict partial_env ?m (extract_state_dict partial_checkpoint) False
              = (None, ?m)"
    by (simp add: partial_env_def demo_env_def partial_checkpoint_def)
  from relaxed_fallback [OF h1 h2 h3 h4] show ?thesis by simp
qed

text \<open>
  C10. The relaxed binding is attempted exactly when strict binding raised an instance of
  RuntimeError. Any other exception of strict binding leaves the loader as it is, with no
  second attempt; an exception of the relaxed binding leaves the loader as well, after
  that one attempt.
\<close>

theorem fallback_only_on_RuntimeError:
  assumes "torch_load E path = Inr ckpt"
    and "load_state_dict E (sequential_model (init_weights E)) (extract_state_dict ckpt) True = (r1, m1)"
    and "load_state_dict E m1 (extract_state_dict ckpt) False = (r2, m2)"
  shows "(LoadStateDict False \<in> set (fst (load_pytorch_model E path))
            \<longleftrightarrow> (\<exists>e. r1 = Some e \<and> isinstance_RuntimeError e))
         \<and> (\<forall>e. r1 = Some e \<and> \<not> isinstance_RuntimeError e \<longrightarrow>
               load_pytorch_model E path = ([TorchLoad path, LoadStateDict True], Inl e))
         \<and> (\<forall>e e2. r1 = Some e \<and> isinstance_RuntimeError e \<and> r2 = Some e2 \<longrightarrow>
               load_pytorch_model E path
                 = ([TorchLoad path, LoadStateDict True] @ warning_lines e @ [LoadStateDict False],
                    Inl e2))"
  using assms by (auto simp: load_pytorch_model_def warning_lines_def split: option.splits)

theorem fallback_only_on_RuntimeError_witness:
  "load_pytorch_model tensor_env ''sharp.pth''
     = ([TorchLoad ''sharp.pth'', LoadStateDict True],
        Inl (PyExc TypeError ''Expected state_dict to be dict-like''))
   \<and> LoadStateDict False \<notin> set (fst (load_pytorch_model tensor_env ''sharp.pth''))
   \<and> snd (load_pytorch_model mismatch_env ''sharp.pth'')
     = Inl (PyExc RuntimeError ''Error(s) in loading state_dict: size mismatch for 0.weight'')
   \<and> LoadStateDict False \<in> set (fst (load_pytorch_model mismatch_env ''sharp.pth''))"
proof -
  let ?t = "PTens (PTensor [3] [5, 6, 7])"
  let ?te = "PyExc TypeError ''Expected state_dict to be dict-like''"
  have a1: "torch_load tensor_env ''sharp.pth'' = Inr ?t"
    by (simp add: tensor_env_def)
  have a2: "load_state_dict tensor_env (sequential_model (init_weights tensor_env)) (extract_state_dict ?t) True
              = (Some ?te, demo_model)"
    by (simp add: tensor_env_def demo_env_def demo_model_def)
  have a3: "load_state_dict tensor_env demo_model (extract_state_dict ?t) False
              = (Some ?te, demo_model)"
    by (simp add: tensor_env_def demo_env_def)
  let ?sd = "PDict [(''0.weight'', ?t)]"
  let ?e1 = "PyExc RuntimeError
     ''Error(s) in loading state_dict: Missing key(s) in state_dictsize mismatch for 0.weight''"
  let ?e2 = "PyExc RuntimeError ''Error(s) in loading state_dict: size mismatch for 0.weight''"
  have b1: "torch_load mismatch_env ''sharp.pth'' = Inr ?sd"
    by (simp add: mismatch_env_def)
  have b2: "load_state_dict mismatch_env (sequential_model (init_weights mismatch_env)) (extract_state_dict ?sd) True
              = (Some ?e1, demo_model)"
    by (simp add: mismatch_env_def demo_env_def demo_model_def sequential_model_def
        missing_keys_def unexpected_keys_def)
  have b3: "load_state_dict mismatch_env demo_model (extract_state_dict ?sd) False
              = (Some ?e2, demo_model)"
    by (simp add: mismatch_env_def demo_env_def demo_model_def sequential_model_def)
  from fallback_only_on_RuntimeError [OF a1 a2 a3] fallback_only_on_RuntimeError [OF b1 b2 b3]
  show ?thesis by simp
qed









subsection \<open>The conversion\<close>

lemma quantize_and_save_cases:
  "quantize_and_save E ml0 out q = (evs, r) \<Longrightarrow>
   (if q then
      (case quantize_weights E ml0 8 of
         Inl e \<Rightarrow> evs = [QuantizeWeights 8] \<and> r = Inl e
       | Inr ml1 \<Rightarrow> evs = [QuantizeWeights 8, Save out]
           \<and> r = (case mlmodel_save E ml1 out of None \<Rightarrow> Inr ml1 | Some e \<Rightarrow> Inl e))
    else evs = [Save out]
           \<and> r = (case mlmodel_save E ml0 out of None \<Rightarrow> Inr ml0 | Some e \<Rightarrow> Inl e))"
  by (auto simp: quantize_and_save_def split: sum.splits option.splits if_splits)






text \<open>
  C8. The calls of a conversion are a prefix of: trace, convert, quantization to 8 bits
  when the flag is set, save to the destination path; a run that returns a model made all
  of them. So the weights are only quantized after the tracing and the conversion returned,
  and the model is only saved after the tracing returned, \<open>ct.convert\<close> returned a
  model with the ports, the metadata was added and, when the flag is set, the quantization
  returned: a run in which tracing, conversion or quantization raises saves nothing.
\<close>

theorem conversion_order:
  assumes conv: "convert_to_coreml E k pm out shp cu q = (evs, r)"
  shows "prefix evs ([JitTrace, CtConvert] @ (if q then [QuantizeWeights 8] else []) @ [Save out])
         \<and> ((\<exists>ml. r = Inr ml) \<longrightarrow>
              evs = [JitTrace, CtConvert] @ (if q then [QuantizeWeights 8] else []) @ [Save out])
         \<and> (\<forall>n. QuantizeWeights n \<in> set evs \<longrightarrow>
              q \<and> n = 8 \<and> take 2 evs = [JitTrace, CtConvert]
              \<and> (\<exists>img tr. create_example_input E k (fst shp) (snd shp) = Inr img
                    \<and> jit_trace E (eval_mode pm) img = Inr tr))
         \<and> (\<forall>p. Save p \<in> set evs \<longrightarrow>
              p = out
              \<and> evs = [JitTrace, CtConvert] @ (if q then [QuantizeWeights 8] else []) @ [Save out]
              \<and> (\<exists>img tr ml0 ml1. create_example_input E k (fst shp) (snd shp) = Inr img
                    \<and> jit_trace E (eval_mode pm) img = Inr tr
                    \<and> ct_convert E tr [image_input shp] output_types cu ''macOS13'' ''mlprogram''
                        = Inr ml0
                    \<and> (if q then quantize_weights E (add_metadata shp ml0) 8 = Inr ml1
                        else ml1 = add_metadata shp ml0)
                    \<and> r = (case mlmodel_save E ml1 out of None \<Rightarrow> Inr ml1 | Some e \<Rightarrow> Inl e)))"
proof (cases "create_example_input E k (fst shp) (snd shp)")
  case (Inl e)
  then show ?thesis using conv by (auto simp: convert_to_coreml_def)
next
  case img: (Inr img)
  show ?thesis
  proof (cases "jit_trace E (eval_mode pm) img")
    case (Inl e)
    then show ?thesis using conv img by (auto simp: convert_to_coreml_def)
  next
    case tr: (Inr tr)
    show ?thesis
    proof (cases "ct_convert E tr [image_input shp] output_types cu ''macOS13'' ''mlprogram''")
      case (Inl e)
      then show ?thesis using conv img tr by (auto simp: convert_to_coreml_def)
    next
      case ml0: (Inr ml0)
      obtain evs' r' where qs: "quantize_and_save E (add_metadata shp ml0) out q = (evs', r')"
        by (cases "quantize_and_save E (add_metadata shp ml0) out q") blast
      have evs: "evs = [JitTrace, CtConvert] @ evs'" and r: "r = r'"
        using conv img tr ml0 qs by (auto simp: convert_to_coreml_def)
      show ?thesis
        using quantize_and_save_cases [OF qs] img tr ml0
        by (auto simp: evs r split: sum.splits option.splits if_splits)
    qed
  qed
qed

theorem conversion_order_witness:
  "convert_to_coreml trace_fails_env 0 demo_model ''out/sharp.mlpackage'' (512, 512) CU_ALL True
     = ([JitTrace], Inl (PyExc RuntimeError ''unsupported operation''))
   \<and> Save ''out/sharp.mlpackage''
       \<notin> set (fst (convert_to_coreml trace_fails_env 0 demo_model ''out/sharp.mlpackage''
                      (512, 512) CU_ALL True))
   \<and> fst (convert_to_coreml demo_env 0 demo_model ''out/sharp.mlpackage'' (512, 512) CU_ALL True)
     = [JitTrace, CtConvert, QuantizeWeights 8, Save ''out/sharp.mlpackage'']"
proof -
  obtain evs r where
    h1: "convert_to_coreml demo_env 0 demo_model ''out/sharp.mlpackage'' (512, 512) CU_ALL True
           = (evs, r)" and r: "\<exists>ml. r = Inr ml"
    by (simp add: convert_to_coreml_def create_example_input_def demo_env_def ct_convert_def
        quantize_and_save_def)
  have h2: "convert_to_coreml trace_fails_env 0 demo_model ''out/sharp.mlpackage'' (512, 512)
              CU_ALL True = ([JitTrace], Inl (PyExc RuntimeError ''unsupported operation''))"
    by (simp add: convert_to_coreml_def create_example_input_def trace_fails_env_def demo_env_def)
  have "(\<exists>ml. r = Inr ml) \<longrightarrow>
          evs = [JitTrace, CtConvert] @ (if True then [QuantizeWeights 8] else [])
                  @ [Save ''out/sharp.mlpackage'']"
    by (rule conjunct1 [OF conjunct2 [OF conversion_order [OF h1] ] ])
  then have full: "evs = [JitTrace, CtConvert, QuantizeWeights 8, Save ''out/sharp.mlpackage'']"
    using r by simp
  have "prefix [JitTrace]
          ([JitTrace, CtConvert] @ (if True then [QuantizeWeights 8] else [])
             @ [Save ''out/sharp.mlpackage''])"
    by (rule conjunct1 [OF conversion_order [OF h2] ])
  then show ?thesis
    using h1 h2 full by simp
qed

subsection \<open>The validation\<close>









lemma demo_forward:
  "forward validation_env m (Image [1, 3, 4, 4] [1])
     = Inr ([ [ [1, 2, 3], [0, 0, 0] ] ], [ [ [4, 5, 6], [1, 1, 1] ] ], [ [ [7], [1] ] ],
            [ [ [8, 9, 10], [2, 2, 2] ] ], [ [ [11, 12, 13, 14], [1, 0, 0, 0] ] ])"
  by (simp add: forward_def validation_env_def demo_env_def demo_output_def slice_last_def
      py_slice_def)

lemma demo_validation:
  "snd (validate_coreml_model validation_env 1 ml pm (4, 4) (1 / 1000)) = Inr False"
proof -
  have inp: "create_example_input validation_env 1 4 4 = Inr (Image [1, 3, 4, 4] [1])"
    by (simp add: create_example_input_def validation_env_def demo_env_def)
  have pr: "mlmodel_predict validation_env ml (Image [1, 3, 4, 4] [1]) = Inr demo_prediction"
    by (simp add: validation_env_def)
  show ?thesis
    using inp pr
    by (simp add: validate_coreml_model_def demo_forward demo_prediction_def np_sub_def
        same_shape_def np_abs_def np_max_def np_mean_def flat_def)
qed

lemma validation_no_primitives:
  "validate_coreml_model no_primitives_env 1 demo_mlmodel demo_model (4, 4) (1 / 1000)
     = ([WrapperForward, Predict],
        Inl (PyExc ValueError
          ''zero-size array to reduction operation maximum which has no identity''))"
  by (simp add: validate_coreml_model_def create_example_input_def forward_def
      no_primitives_env_def demo_env_def slice_last_def np_sub_def same_shape_def
      np_abs_def np_max_def flat_def)



subsection \<open>The command line tool\<close>

lemma load_no_inference:
  "load_pytorch_model E p = (evs, r) \<Longrightarrow>
   WrapperForward \<notin> set evs \<and> Predict \<notin> set evs \<and> filter (\<lambda>ev. ev = JitTrace) evs = []"
  by (auto simp: load_pytorch_model_def warning_lines_def Let_def
      split: sum.splits prod.splits option.splits if_splits)

lemma quantize_and_save_inference:
  "quantize_and_save E ml0 out q = (evs, r) \<Longrightarrow>
   WrapperForward \<notin> set evs \<and> Predict \<notin> set evs \<and> filter (\<lambda>ev. ev = JitTrace) evs = []
   \<and> (\<forall>ml. r = Inr ml \<longrightarrow> Save out \<in> set evs \<and> mlmodel_save E ml out = None)"
  by (auto simp: quantize_and_save_def Let_def split: sum.splits option.splits if_splits)

lemma convert_inference:
  assumes "convert_to_coreml E k pm out shp cu q = (evs, r)"
  shows "WrapperForward \<notin> set evs \<and> Predict \<notin> set evs
         \<and> length (filter (\<lambda>ev. ev = JitTrace) evs) \<le> 1
         \<and> (\<forall>ml. r = Inr ml \<longrightarrow> Save out \<in> set evs \<and> mlmodel_save E ml out = None
               \<and> length (filter (\<lambda>ev. ev = JitTrace) evs) = 1)"
  using assms
  by (auto simp: convert_to_coreml_def Let_def
      split: sum.splits prod.splits dest!: quantize_and_save_inference)

lemma main_absent:
  "\<not> path_exists E (arg_input a) \<Longrightarrow>
   main E a = ([Print (''Error: Input file not found: '' @ arg_input a)], SysExit 1)"
  by (simp add: main_def)

lemma main_present:
  assumes "path_exists E (arg_input a)"
    and "dirname (arg_output a) = [] \<or> makedirs E (dirname (arg_output a)) = None"
  shows "main E a =
     (let ev0 = (if dirname (arg_output a) \<noteq> [] then [Makedirs (dirname (arg_output a))] else [])
      in case load_pytorch_model E (arg_input a) of
           (ev1, Inl e) \<Rightarrow> handle_exception (ev0 @ ev1) e
         | (ev1, Inr pytorch_model) \<Rightarrow>
             (case convert_to_coreml E 0 pytorch_model (arg_output a)
                     (arg_height a, arg_width a) (arg_compute_units a) (arg_quantize a) of
                (ev2, Inl e) \<Rightarrow> handle_exception (ev0 @ ev1 @ ev2) e
              | (ev2, Inr mlmodel) \<Rightarrow>
                  (if \<not> arg_skip_validation a then
                     (case validate_coreml_model E 1 mlmodel pytorch_model
                             (arg_height a, arg_width a) (arg_tolerance a) of
                        (ev3, Inl e) \<Rightarrow> handle_exception (ev0 @ ev1 @ ev2 @ ev3) e
                      | (ev3, Inr ok) \<Rightarrow>
                          (ev0 @ ev1 @ ev2 @ ev3 @ [Print ''SUCCESS: Model conversion complete!''],
                           Returned))
                   else
                     (ev0 @ ev1 @ ev2 @ [Print ''SUCCESS: Model conversion complete!''],
                      Returned))))"
  using assms by (auto simp: main_def Let_def)

lemma handle_exception_status:
  "isinstance_Exception e \<Longrightarrow> snd (handle_exception evs e) = SysExit 1"
  by (simp add: handle_exception_def)

text \<open>
  C4. The process ends with status 1 when the input file is absent, and, the file being
  there and the output directory made, when the loader or the conversion raises an
  exception (an instance of \<open>Exception\<close>). When both return, and the validation is
  skipped or returns, \<open>main\<close> returns and the status is 0, whether the validation
  found all outputs within the tolerance or not.
\<close>

theorem exit_codes:
  "(\<not> path_exists E (arg_input a) \<longrightarrow> exit_status (snd (main E a)) = 1)
   \<and> (path_exists E (arg_input a)
        \<and> (dirname (arg_output a) = [] \<or> makedirs E (dirname (arg_output a)) = None) \<longrightarrow>
       (\<forall>ev1 e. load_pytorch_model E (arg_input a) = (ev1, Inl e) \<and> isinstance_Exception e \<longrightarrow>
            exit_status (snd (main E a)) = 1)
       \<and> (\<forall>ev1 pm. load_pytorch_model E (arg_input a) = (ev1, Inr pm) \<longrightarrow>
            (\<forall>ev2 e. convert_to_coreml E 0 pm (arg_output a) (arg_height a, arg_width a)
                        (arg_compute_units a) (arg_quantize a) = (ev2, Inl e)
                      \<and> isinstance_Exception e \<longrightarrow>
                 exit_status (snd (main E a)) = 1)
            \<and> (\<forall>ev2 ml. convert_to_coreml E 0 pm (arg_output a) (arg_height a, arg_width a)
                        (arg_compute_units a) (arg_quantize a) = (ev2, Inr ml) \<longrightarrow>
                 (arg_skip_validation a
                  \<or> (\<exists>ev3 ok. validate_coreml_model E 1 ml pm (arg_height a, arg_width a)
                                 (arg_tolerance a) = (ev3, Inr ok)) \<longrightarrow>
                  snd (main E a) = Returned \<and> exit_status (snd (main E a)) = 0))))"
proof (cases "path_exists E (arg_input a)")
  case False
  then show ?thesis by (simp add: main_absent)
next
  case True
  show ?thesis
  proof (cases "dirname (arg_output a) = [] \<or> makedirs E (dirname (arg_output a)) = None")
    case False
    then show ?thesis using True by auto
  next
    case dir: True
    show ?thesis
      using True dir
      by (auto simp: main_present [OF True dir] Let_def handle_exception_status)
  qed
qed

text \<open>
  C9. With \<open>--skip-validation\<close> set, no run executes the wrapper or the converted model
  for a comparison, and it traces at most once. When the input file is there, the output
  directory is made, and the loader and the conversion return, \<open>main\<close> returns; and
  whenever \<open>main\<close> returns, the model was traced once and saved to the requested path,
  and the save returned.
\<close>

theorem skip_validation_run:
  assumes skip: "arg_skip_validation a"
  shows "WrapperForward \<notin> set (fst (main E a)) \<and> Predict \<notin> set (fst (main E a))
         \<and> length (filter (\<lambda>ev. ev = JitTrace) (fst (main E a))) \<le> 1
         \<and> (snd (main E a) = Returned \<longrightarrow>
              Save (arg_output a) \<in> set (fst (main E a))
              \<and> (\<exists>ml. mlmodel_save E ml (arg_output a) = None)
              \<and> length (filter (\<lambda>ev. ev = JitTrace) (fst (main E a))) = 1)
         \<and> (path_exists E (arg_input a)
              \<and> (dirname (arg_output a) = [] \<or> makedirs E (dirname (arg_output a)) = None)
              \<and> (\<exists>ev1 pm ev2 ml. load_pytorch_model E (arg_input a) = (ev1, Inr pm)
                    \<and> convert_to_coreml E 0 pm (arg_output a) (arg_height a, arg_width a)
                        (arg_compute_units a) (arg_quantize a) = (ev2, Inr ml))
              \<longrightarrow> snd (main E a) = Returned)"
proof (cases "path_exists E (arg_input a)")
  case False
  then show ?thesis by (simp add: main_absent)
next
  case True
  show ?thesis
  proof (cases "dirname (arg_output a) = [] \<or> makedirs E (dirname (arg_output a)) = None")
    case False
    then show ?thesis using True by (auto simp: main_def Let_def)
  next
    case dir: True
    obtain ev1 r1 where ld: "load_pytorch_model E (arg_input a) = (ev1, r1)"
      by (cases "load_pytorch_model E (arg_input a)") blast
    note l = load_no_inference [OF ld]
    show ?thesis
    proof (cases r1)
      case (Inl e)
      then show ?thesis
        using l ld by (auto simp: main_present [OF True dir] handle_exception_def)
    next
      case (Inr pm)
      obtain ev2 r2 where cv: "convert_to_coreml E 0 pm (arg_output a) (arg_height a, arg_width a)
                        (arg_compute_units a) (arg_quantize a) = (ev2, r2)"
        by (cases "convert_to_coreml E 0 pm (arg_output a) (arg_height a, arg_width a)
                        (arg_compute_units a) (arg_quantize a)") blast
      note c = convert_inference [OF cv]
      show ?thesis
      proof (cases r2)
        case (Inl e)
        then show ?thesis
          using l c ld cv Inr by (auto simp: main_present [OF True dir] handle_exception_def)
      next
        case ml: (Inr ml)
        then show ?thesis
          using l c ld cv Inr skip by (auto simp: main_present [OF True dir])
      qed
    qed
  qed
qed

lemma demo_load:
  assumes "torch_load E p = Inr demo_checkpoint" and "init_weights E = filled 0"
    and "load_state_dict E = torch_load_state_dict"
  shows "load_pytorch_model E p
           = ([TorchLoad p, LoadStateDict True], Inr (eval_mode (sequential_model (filled 1))))"
  using assms
  by (simp add: load_pytorch_model_def demo_checkpoint_def demo_weights_def
      sequential_model_def missing_keys_def unexpected_keys_def eval_mode_def)

lemma demo_convert:
  assumes "torch_rand E = (\<lambda>k shp. Inr (Image shp [real k]))"
    and "jit_trace E = (\<lambda>m img. Inr (Traced m img))"
    and "ct_convert_error E = (\<lambda>tr ins outs. None)"
    and "quantize_weights E = (\<lambda>ml n. Inr ml)"
    and "mlmodel_save E = (\<lambda>ml p. None)"
  shows "\<exists>ml. convert_to_coreml E k pm out shp cu q
           = ([JitTrace, CtConvert] @ (if q then [QuantizeWeights 8] else []) @ [Save out],
              Inr ml)"
  using assms
  by (simp add: convert_to_coreml_def create_example_input_def ct_convert_def
      quantize_and_save_def)

theorem exit_codes_witness:
  "exit_status (snd (main demo_env (demo_args\<lparr>arg_input := ''missing.pth''\<rparr>))) = 1
   \<and> exit_status (snd (main corrupt_checkpoint_env demo_args)) = 1
   \<and> exit_status (snd (main trace_fails_env demo_args)) = 1
   \<and> snd (validate_coreml_model validation_env 1 demo_mlmodel demo_model (4, 4) (1 / 1000))
       = Inr False
   \<and> exit_status (snd (main validation_env demo_args)) = 0"
proof -
  let ?pm = "eval_mode (sequential_model (filled 1))"
  have absent: "\<not> path_exists demo_env (arg_input (demo_args\<lparr>arg_input := ''missing.pth''\<rparr>))"
    by (simp add: demo_env_def)
  have a: "exit_status (snd (main demo_env (demo_args\<lparr>arg_input := ''missing.pth''\<rparr>))) = 1"
    using exit_codes [of demo_env "demo_args\<lparr>arg_input := ''missing.pth''\<rparr>"] absent by blast
  have setup_c: "path_exists corrupt_checkpoint_env (arg_input demo_args)
       \<and> (dirname (arg_output demo_args) = []
           \<or> makedirs corrupt_checkpoint_env (dirname (arg_output demo_args)) = None)"
    by (simp add: corrupt_checkpoint_env_def demo_env_def demo_args_def)
  have load_c: "load_pytorch_model corrupt_checkpoint_env (arg_input demo_args)
                  = ([TorchLoad ''sharp.pth''], Inl (PyExc UnpicklingError ''invalid load key''))
                \<and> isinstance_Exception (PyExc UnpicklingError ''invalid load key'')"
    by (simp add: load_pytorch_model_def corrupt_checkpoint_env_def demo_args_def)
  have b: "exit_status (snd (main corrupt_checkpoint_env demo_args)) = 1"
    using exit_codes [of corrupt_checkpoint_env demo_args] setup_c load_c by blast
  have setup_t: "path_exists trace_fails_env (arg_input demo_args)
       \<and> (dirname (arg_output demo_args) = []
           \<or> makedirs trace_fails_env (dirname (arg_output demo_args)) = None)"
    by (simp add: trace_fails_env_def demo_env_def demo_args_def)
  have load_t: "load_pytorch_model trace_fails_env (arg_input demo_args)
                  = ([TorchLoad (arg_input demo_args), LoadStateDict True], Inr ?pm)"
    by (rule demo_load) (simp_all add: trace_fails_env_def demo_env_def)
  have conv_t: "convert_to_coreml trace_fails_env 0 ?pm (arg_output demo_args)
                  (arg_height demo_args, arg_width demo_args) (arg_compute_units demo_args)
                  (arg_quantize demo_args)
                  = ([JitTrace], Inl (PyExc RuntimeError ''unsupported operation''))
                \<and> isinstance_Exception (PyExc RuntimeError ''unsupported operation'')"
    by (simp add: convert_to_coreml_def create_example_input_def trace_fails_env_def
        demo_env_def)
  have c: "exit_status (snd (main trace_fails_env demo_args)) = 1"
    using exit_codes [of trace_fails_env demo_args] setup_t load_t conv_t by blast
  have setup_v: "path_exists validation_env (arg_input demo_args)
       \<and> (dirname (arg_output demo_args) = []
           \<or> makedirs validation_env (dirname (arg_output demo_args)) = None)"
    by (simp add: validation_env_def demo_env_def demo_args_def)
  have load_v: "load_pytorch_model validation_env (arg_input demo_args)
                  = ([TorchLoad (arg_input demo_args), LoadStateDict True], Inr ?pm)"
    by (rule demo_load) (simp_all add: validation_env_def demo_env_def)
  have "\<exists>ml'. convert_to_coreml validation_env 0 ?pm (arg_output demo_args)
                  (arg_height demo_args, arg_width demo_args) (arg_compute_units demo_args)
                  (arg_quantize demo_args)
               = ([JitTrace, CtConvert] @ (if arg_quantize demo_args then [QuantizeWeights 8] else [])
                    @ [Save (arg_output demo_args)], Inr ml')"
    by (rule demo_convert) (simp_all add: validation_env_def demo_env_def)
  then obtain ev2 ml' where conv_v: "convert_to_coreml validation_env 0 ?pm (arg_output demo_args)
                  (arg_height demo_args, arg_width demo_args) (arg_compute_units demo_args)
                  (arg_quantize demo_args) = (ev2, Inr ml')"
    by blast
  have "snd (validate_coreml_model validation_env 1 ml' ?pm
               (arg_height demo_args, arg_width demo_args) (arg_tolerance demo_args)) = Inr False"
    using demo_validation [of ml' ?pm] by (simp add: demo_args_def)
  then have val_v: "\<exists>ev3 ok. validate_coreml_model validation_env 1 ml' ?pm
               (arg_height demo_args, arg_width demo_args) (arg_tolerance demo_args)
               = (ev3, Inr ok)"
    by (metis prod.collapse)
  have d: "exit_status (snd (main validation_env demo_args)) = 0"
    using exit_codes [of validation_env demo_args] setup_v load_v conv_v val_v by blast
  show ?thesis
    using a b c d demo_validation [of demo_mlmodel demo_model] by simp
qed

theorem skip_validation_run_witness:
  "arg_skip_validation (demo_args\<lparr>arg_skip_validation := True\<rparr>)
   \<and> snd (main demo_env (demo_args\<lparr>arg_skip_validation := True\<rparr>)) = Returned
   \<and> Save ''out/sharp.mlpackage'' \<in> set (fst (main demo_env (demo_args\<lparr>arg_skip_validation := True\<rparr>)))
   \<and> WrapperForward \<notin> set (fst (main demo_env (demo_args\<lparr>arg_skip_validation := True\<rparr>)))
   \<and> Predict \<notin> set (fst (main demo_env (demo_args\<lparr>arg_skip_validation := True\<rparr>)))
   \<and> length (filter (\<lambda>ev. ev = JitTrace)
        (fst (main demo_env (demo_args\<lparr>arg_skip_validation := True\<rparr>)))) = 1"
proof -
  let ?a = "demo_args\<lparr>arg_skip_validation := True\<rparr>"
  let ?pm = "eval_mode (sequential_model (filled 1))"
  have skip: "arg_skip_validation ?a" by simp
  have out: "arg_output ?a = ''out/sharp.mlpackage''" by (simp add: demo_args_def)
  have pre1: "path_exists demo_env (arg_input ?a)"
    by (simp add: demo_env_def demo_args_def)
  have pre2: "dirname (arg_output ?a) = [] \<or> makedirs demo_env (dirname (arg_output ?a)) = None"
    by (simp add: demo_env_def)
  have load: "load_pytorch_model demo_env (arg_input ?a)
                = ([TorchLoad (arg_input ?a), LoadStateDict True], Inr ?pm)"
    by (rule demo_load) (simp_all add: demo_env_def)
  have "\<exists>ml. convert_to_coreml demo_env 0 ?pm (arg_output ?a)
                  (arg_height ?a, arg_width ?a) (arg_compute_units ?a) (arg_quantize ?a)
               = ([JitTrace, CtConvert] @ (if arg_quantize ?a then [QuantizeWeights 8] else [])
                    @ [Save (arg_output ?a)], Inr ml)"
    by (rule demo_convert) (simp_all add: demo_env_def)
  then obtain ev2 ml where conv: "convert_to_coreml demo_env 0 ?pm (arg_output ?a)
                  (arg_height ?a, arg_width ?a) (arg_compute_units ?a) (arg_quantize ?a)
                  = (ev2, Inr ml)"
    by blast
  note run = skip_validation_run [OF skip, of demo_env]
  have both: "\<exists>ev1 pm ev2 ml. load_pytorch_model demo_env (arg_input ?a) = (ev1, Inr pm)
                \<and> convert_to_coreml demo_env 0 pm (arg_output ?a)
                     (arg_height ?a, arg_width ?a) (arg_compute_units ?a) (arg_quantize ?a)
                   = (ev2, Inr ml)"
    using load conv by blast
  have ret: "snd (main demo_env ?a) = Returned"
    by (rule mp [OF conjunct2 [OF conjunct2 [OF conjunct2 [OF conjunct2 [OF run] ] ] ] ])
      (intro conjI pre1 pre2 both)
  show ?thesis
    using run ret skip out by simp
qed

end
